theory Spec2Isabelle
  imports Complex_Main
begin

section \<open>Purchase-quota gate (TokenPurchaseTracker)\<close>

text \<open>
  The tracker keeps two Redis keys per (userId, tokenMint): an integer counter
  (\<open>token_buy_count\<close>) and a JSON record (\<open>token_purchase_record\<close>). The store
  is modelled as two maps; an absent key is \<open>None\<close>. Key expiry (the 24 hour TTL) is
  a matter of real time and is not part of the model. Counts are unbounded integers.

  Every Redis call of the source can fail; the failures a call meets are an explicit
  input of the model (\<open>store_faults\<close>), so that each \<open>throw\<close> and the \<open>catch\<close>
  of the source is a branch of the definition.
\<close>

type_synonym counter_key = "string \<times> string"

record TokenPurchaseRecord =
  tpr_userId :: string
  tpr_tokenMint :: string
  tpr_currentCount :: int
  tpr_maxCount :: int
  tpr_lastPurchaseTimestamp :: int
  tpr_subscriptionId :: string

record quota_store =
  counts :: "counter_key \<Rightarrow> int option"
  purchase_records :: "counter_key \<Rightarrow> TokenPurchaseRecord option"

text \<open>
  The outcome of \<open>multi.exec()\<close> for the transaction INCR; EXPIRE:
  \<^item> \<open>ExecOk\<close>: both commands ran without error;
  \<^item> \<open>ExecNull\<close>: \<open>exec\<close> returned null or rejected, nothing was applied;
  \<^item> \<open>IncrErr\<close>: the INCR entry carries an error, the counter is unchanged;
  \<^item> \<open>ExpireErr\<close>: INCR was applied and the EXPIRE entry carries an error.
\<close>

datatype exec_outcome = ExecOk | ExecNull | IncrErr | ExpireErr

record store_faults =
  connect_fails :: bool
  exec_result :: exec_outcome
  decr_fails :: bool
  set_fails :: bool

record validate_result =
  success :: bool
  newCount :: int
  wasAtLimit :: bool

record PurchaseValidationResult =
  canPurchase :: bool
  pv_currentCount :: int
  pv_maxCount :: int
  remainingPurchases :: int

definition no_faults :: store_faults where
  "no_faults = \<lparr>connect_fails = False, exec_result = ExecOk, decr_fails = False, set_fails = False\<rparr>"

text \<open>Redis GET followed by \<open>count ? parseInt(count, 10) : 0\<close>.\<close>

definition current_count :: "quota_store \<Rightarrow> counter_key \<Rightarrow> int" where
  "current_count st k = (case counts st k of None \<Rightarrow> 0 | Some c \<Rightarrow> c)"

text \<open>Redis INCR and DECR: an absent key counts as 0 before the operation.\<close>

definition redis_incr :: "counter_key \<Rightarrow> quota_store \<Rightarrow> quota_store" where
  "redis_incr k st = st\<lparr>counts := (counts st)(k \<mapsto> current_count st k + 1)\<rparr>"

definition redis_decr :: "counter_key \<Rightarrow> quota_store \<Rightarrow> quota_store" where
  "redis_decr k st = st\<lparr>counts := (counts st)(k \<mapsto> current_count st k - 1)\<rparr>"

text \<open>The value every path through the \<open>catch\<close> block returns.\<close>

definition caught_result :: validate_result where
  "caught_result = \<lparr>success = False, newCount = 0, wasAtLimit = False\<rparr>"

text \<open>
  \<open>canUserPurchaseToken\<close>: a single GET; on a store failure the \<open>catch\<close> allows
  the purchase.
\<close>

definition canUserPurchaseToken ::
  "store_faults \<Rightarrow> string \<Rightarrow> string \<Rightarrow> int \<Rightarrow> quota_store \<Rightarrow> PurchaseValidationResult" where
  "canUserPurchaseToken f uid mint maxPurchaseCount st =
     (if connect_fails f then
        \<lparr>canPurchase = True, pv_currentCount = 0, pv_maxCount = maxPurchaseCount,
         remainingPurchases = maxPurchaseCount\<rparr>
      else
        (let count = current_count st (uid, mint) in
         \<lparr>canPurchase = (count < maxPurchaseCount), pv_currentCount = count,
          pv_maxCount = maxPurchaseCount,
          remainingPurchases = max 0 (maxPurchaseCount - count)\<rparr>))"

text \<open>
  \<open>incrementAndValidatePurchase\<close>. The argument \<open>now\<close> is the value of
  \<open>Date.now()\<close>. The result is the returned object together with the store after
  the call.
\<close>

definition incrementAndValidatePurchase ::
  "store_faults \<Rightarrow> int \<Rightarrow> string \<Rightarrow> string \<Rightarrow> int \<Rightarrow> string \<Rightarrow> quota_store
     \<Rightarrow> validate_result \<times> quota_store" where
  "incrementAndValidatePurchase f now uid mint maxPurchaseCount subscriptionId st =
     (if connect_fails f then (caught_result, st)
      else
        (case exec_result f of
           ExecNull \<Rightarrow> (caught_result, st)
         | IncrErr \<Rightarrow> (caught_result, st)
         | ExpireErr \<Rightarrow> (caught_result, redis_incr (uid, mint) st)
         | ExecOk \<Rightarrow>
             (let st1 = redis_incr (uid, mint) st;
                  nc = current_count st1 (uid, mint);
                  atLimit = (nc > maxPurchaseCount)
              in if atLimit then
                   (if decr_fails f then (caught_result, st1)
                    else (\<lparr>success = False, newCount = nc - 1, wasAtLimit = True\<rparr>,
                          redis_decr (uid, mint) st1))
                 else if set_fails f then (caught_result, st1)
                 else
                   (\<lparr>success = True, newCount = nc, wasAtLimit = False\<rparr>,
                    st1\<lparr>purchase_records := (purchase_records st1)((uid, mint) \<mapsto>
                      \<lparr>tpr_userId = uid, tpr_tokenMint = mint, tpr_currentCount = nc,
                       tpr_maxCount = maxPurchaseCount, tpr_lastPurchaseTimestamp = now,
                       tpr_subscriptionId = subscriptionId\<rparr>)\<rparr>))))"

definition empty_quota :: quota_store where
  "empty_quota = \<lparr>counts = (\<lambda>_. None), purchase_records = (\<lambda>_. None)\<rparr>"

definition store_at_two :: quota_store where
  "store_at_two = empty_quota\<lparr>counts := (counts empty_quota)((''U1'', ''T1'') \<mapsto> 2)\<rparr>"

definition record_write_fails :: store_faults where
  "record_write_fails = no_faults\<lparr>set_fails := True\<rparr>"

definition decrement_fails :: store_faults where
  "decrement_fails = no_faults\<lparr>decr_fails := True\<rparr>"

section \<open>Subscription and KOL registry (CacheService, HeliusWebhookService)\<close>

text \<open>
  Numbers of the source are JavaScript numbers. The amounts and percentages of a
  subscription are the rationals that the stored numbers denote (arithmetic on them goes
  through \<open>to_double\<close> below), instants are integers (milliseconds), counts are
  integers. The
  fields \<open>id\<close> and \<open>type\<close> of the source are named \<open>sub_id\<close> and \<open>sub_type\<close>.
\<close>

datatype subscription_type = Trade | Watch

record WatchConfig =
  takeProfitPercentage :: "rat option"
  stopLossPercentage :: "rat option"
  enableTrailingStop :: "bool option"
  trailingPercentage :: "rat option"
  maxHoldTimeMinutes :: "rat option"

record TradingHours =
  th_start :: string
  th_end :: string
  th_timezone :: string

record SubscriptionSettings =
  enableSlippageProtection :: "bool option"
  maxSlippagePercent :: "rat option"
  enableDexWhitelist :: "bool option"
  allowedDexes :: "string list option"
  enableTokenBlacklist :: "bool option"
  blacklistedTokens :: "string list option"
  enableTimeRestrictions :: "bool option"
  tradingHours :: "TradingHours option"

record UserSubscription =
  sub_id :: string
  userId :: string
  kolWallet :: string
  isActive :: bool
  copyPercentage :: rat
  maxAmount :: "rat option"
  minAmount :: "rat option"
  tokenBuyCount :: "int option"
  privateKey :: string
  walletAddress :: string
  createdAt :: int
  updatedAt :: int
  settings :: "SubscriptionSettings option"
  sub_type :: subscription_type
  watchConfig :: "WatchConfig option"

text \<open>
  The registry part of the Redis store:
  \<^item> \<open>user_subs u\<close>: the list stored under \<open>sub:user:u\<close>; an absent key reads as
    the empty list (\<open>getUserSubscriptions\<close> returns \<open>[]\<close> when GET finds nothing);
  \<^item> \<open>kol_subscribers k\<close>: the members of the set \<open>kol:subscribers:k\<close>; a Redis set
    with no member is an absent key, so the empty list stands for both;
  \<^item> \<open>kol_active\<close>: the members of the set \<open>kol:active\<close>.
  Redis sets are lists without duplicates here; SADD is \<open>List.insert\<close>, SREM is
  \<open>removeAll\<close>, and SMEMBERS returns the list (Redis fixes no order). The Redis
  calls of the registry are taken to succeed. The list of a user is written with SETEX
  and a time to live (\<open>config.cache.ttl.subscriptions || 86400\<close> seconds), so the key
  \<open>sub:user:u\<close> can expire between two operations: \<open>expire_user_subscriptions\<close>
  below. The two kinds of set get a time to live only when \<open>KOL_WALLET_TTL\<close> is set
  to a positive number (the default is 0), so they do not expire here.
\<close>

record registry =
  user_subs :: "string \<Rightarrow> UserSubscription list"
  kol_subscribers :: "string \<Rightarrow> string list"
  kol_active :: "string list"

definition empty_registry :: registry where
  "empty_registry = \<lparr>user_subs = (\<lambda>_. []), kol_subscribers = (\<lambda>_. []), kol_active = []\<rparr>"


definition getUserSubscriptions :: "string \<Rightarrow> registry \<Rightarrow> UserSubscription list" where
  "getUserSubscriptions u st = user_subs st u"

definition addKOLWallet :: "string \<Rightarrow> registry \<Rightarrow> registry" where
  "addKOLWallet w st = st\<lparr>kol_active := List.insert w (kol_active st)\<rparr>"

definition removeKOLWallet :: "string \<Rightarrow> registry \<Rightarrow> registry" where
  "removeKOLWallet w st = st\<lparr>kol_active := removeAll w (kol_active st)\<rparr>"

definition addKOLWalletSubscriber :: "string \<Rightarrow> string \<Rightarrow> registry \<Rightarrow> registry" where
  "addKOLWalletSubscriber k u st =
     st\<lparr>kol_subscribers := (kol_subscribers st)(k := List.insert u (kol_subscribers st k))\<rparr>"

text \<open>
  SREM, then SCARD; when no subscriber is left the wallet leaves the active set and
  the subscribers key is deleted.
\<close>

definition removeKOLWalletSubscriber :: "string \<Rightarrow> string \<Rightarrow> registry \<Rightarrow> registry" where
  "removeKOLWalletSubscriber k u st =
     (let st1 = st\<lparr>kol_subscribers := (kol_subscribers st)(k := removeAll u (kol_subscribers st k))\<rparr>;
          subscribersCount = length (kol_subscribers st1 k)
      in if subscribersCount = 0
         then (let st2 = removeKOLWallet k st1
               in st2\<lparr>kol_subscribers := (kol_subscribers st2)(k := [])\<rparr>)
         else st1)"

text \<open>
  \<open>addSubscription\<close>. \<open>newId\<close> is the value of \<open>uuidv4()\<close>, \<open>t1\<close> and \<open>t2\<close>
  are the two readings of \<open>new Date()\<close>. The object spread
  \<open>{...subscription, id, createdAt, updatedAt}\<close> overwrites these three fields and
  keeps every other field of the argument. The result is the returned list and the
  registry after the call.
\<close>

definition addSubscription ::
  "string \<Rightarrow> int \<Rightarrow> int \<Rightarrow> UserSubscription \<Rightarrow> registry \<Rightarrow> UserSubscription list \<times> registry" where
  "addSubscription newId t1 t2 subscription st =
     (let existingSubscriptions = getUserSubscriptions (userId subscription) st;
          filteredSubscriptions =
            filter (\<lambda>sub. kolWallet sub \<noteq> kolWallet subscription) existingSubscriptions
            @ [subscription\<lparr>sub_id := newId, createdAt := t1, updatedAt := t2\<rparr>];
          st1 = st\<lparr>user_subs := (user_subs st)(userId subscription := filteredSubscriptions)\<rparr>
      in (filteredSubscriptions,
          addKOLWalletSubscriber (kolWallet subscription) (userId subscription) st1))"

text \<open>
  \<open>removeSubscription\<close>: SETEX of the filtered list when it is not empty, DEL of
  the key otherwise; both leave \<open>user_subs\<close> reading as the filtered list.
\<close>

definition removeSubscription ::
  "string \<Rightarrow> string \<Rightarrow> registry \<Rightarrow> UserSubscription list \<times> registry" where
  "removeSubscription u k st =
     (let existingSubscriptions = getUserSubscriptions u st;
          filteredSubscriptions = filter (\<lambda>sub. kolWallet sub \<noteq> k) existingSubscriptions;
          st1 = (if length filteredSubscriptions > 0
                 then st\<lparr>user_subs := (user_subs st)(u := filteredSubscriptions)\<rparr>
                 else st\<lparr>user_subs := (user_subs st)(u := [])\<rparr>)
      in (filteredSubscriptions, removeKOLWalletSubscriber k u st1))"

definition getUsersForKOL :: "string \<Rightarrow> registry \<Rightarrow> string list" where
  "getUsersForKOL k st = kol_subscribers st k"

definition getSubscriptionsForKOL :: "string \<Rightarrow> registry \<Rightarrow> UserSubscription list" where
  "getSubscriptionsForKOL k st =
     List.map_filter (\<lambda>u. find (\<lambda>sub. kolWallet sub = k) (getUserSubscriptions u st))
       (getUsersForKOL k st)"

definition getWatchedKOLWallets :: "registry \<Rightarrow> string list" where
  "getWatchedKOLWallets st = kol_active st"

text \<open>
  The calls to the external provider (\<open>appendAddressesToWebhook\<close>,
  \<open>removeAddressesFromWebhook\<close>) either reply or throw; the reply of the append call
  is tested for truthiness. What the provider does is an input of the model.
\<close>

datatype provider_reply = ProviderReplies bool | ProviderThrows

datatype error = ProviderError

text \<open>
  \<open>addKolWalletToWebhook\<close>: the active set is read once before the provider call;
  each wallet not in that snapshot is added.
\<close>

definition addKolWalletToWebhook ::
  "provider_reply \<Rightarrow> string list \<Rightarrow> registry \<Rightarrow> (error + string list) \<times> registry" where
  "addKolWalletToWebhook reply wallets st =
     (case reply of
        ProviderThrows \<Rightarrow> (Inl ProviderError, st)
      | ProviderReplies response \<Rightarrow>
          (let activeKols = getWatchedKOLWallets st;
               st1 = (if response
                      then foldl (\<lambda>s wallet. if wallet \<in> set activeKols then s
                                               else addKOLWallet wallet s) st wallets
                      else st)
           in (Inr (getWatchedKOLWallets st1), st1)))"


definition subscribeToKOL ::
  "provider_reply \<Rightarrow> string \<Rightarrow> int \<Rightarrow> int \<Rightarrow> UserSubscription \<Rightarrow> registry
     \<Rightarrow> (error + UserSubscription list) \<times> registry" where
  "subscribeToKOL reply newId t1 t2 subscription st =
     (let (sub, st1) = addSubscription newId t1 t2 subscription st;
          activeKols = getWatchedKOLWallets st1
      in if kolWallet subscription \<in> set activeKols then (Inr sub, st1)
         else (case addKolWalletToWebhook reply [kolWallet subscription] st1 of
                 (Inl e, st2) \<Rightarrow> (Inl e, st2)
               | (Inr _, st2) \<Rightarrow> (Inr sub, st2)))"




definition sample_subscription :: UserSubscription where
  "sample_subscription =
     \<lparr>sub_id = [], userId = ''U1'', kolWallet = ''K1'', isActive = True,
      copyPercentage = 50, maxAmount = None, minAmount = Some (1 / 10),
      tokenBuyCount = Some 1, privateKey = ''key-1'', walletAddress = ''W1'',
      createdAt = 0, updatedAt = 0, settings = None, sub_type = Trade,
      watchConfig = Some \<lparr>takeProfitPercentage = Some 50, stopLossPercentage = Some 20,
        enableTrailingStop = None, trailingPercentage = None, maxHoldTimeMinutes = None\<rparr>\<rparr>"

text \<open>Sample states and the invariant used in the proofs about the registry.\<close>

definition changed_subscription :: UserSubscription where
  "changed_subscription = sample_subscription\<lparr>copyPercentage := 25, sub_type := Watch\<rparr>"

definition subscribed_once :: registry where
  "subscribed_once =
     snd (subscribeToKOL (ProviderReplies True) ''id-1'' 100 101 sample_subscription empty_registry)"


definition watched_beside_subscription :: registry where
  "watched_beside_subscription =
     snd (addKolWalletToWebhook (ProviderReplies True) [''K1'']
       (snd (subscribeToKOL (ProviderReplies True) ''id-9'' 100 101
          (sample_subscription\<lparr>kolWallet := ''K2''\<rparr>) empty_registry)))"







section \<open>JavaScript numbers\<close>

text \<open>
  The classifier computes with JavaScript numbers, which are IEEE 754 doubles. A number
  is modelled by the rational it denotes, one of the two infinities, or NaN. Every
  arithmetic operation yields the double nearest to the exact result, ties going to
  the even significand (\<open>to_double\<close>): 53 bits of significand, exponents from -1022
  to 1023, gradual underflow to zero and overflow to infinity. The sign of zero is not
  modelled; the source compares with \<open>=== 0\<close>, tests truthiness and takes
  \<open>Math.abs\<close>, none of which tells the two zeros apart.
\<close>

datatype jsnum = Fin rat | PInf | NInf | NaN

text \<open>The number of binary digits of a positive integer.\<close>

function bit_length :: "int \<Rightarrow> int" where
  "bit_length p = (if p \<le> 0 then 0 else 1 + bit_length (p div 2))"
  by pat_completeness auto
termination
  by (relation "measure nat") auto

declare bit_length.simps [simp del]

definition pow2 :: "int \<Rightarrow> rat" where
  "pow2 k = (if 0 \<le> k then 2 ^ nat k else 1 / 2 ^ nat (- k))"

text \<open>For positive \<open>a\<close>, the exponent \<open>e\<close> with \<open>2 ^ e \<le> a < 2 ^ (e + 1)\<close>.\<close>

definition ilog2 :: "rat \<Rightarrow> int" where
  "ilog2 a =
     (let (p, q) = quotient_of a;
          k = bit_length p - bit_length q
      in if pow2 k \<le> a then k else k - 1)"

definition round_half_even :: "rat \<Rightarrow> int" where
  "round_half_even q =
     (let f = \<lfloor>q\<rfloor>; d = q - of_int f
      in if d < 1 / 2 then f else if 1 / 2 < d then f + 1 else if even f then f else f + 1)"

text \<open>
  The double nearest to a rational: the significand is the rational divided by the
  unit in the last place of its binade (of the smallest binade for subnormal values),
  rounded to an integer.
\<close>

definition to_double :: "rat \<Rightarrow> jsnum" where
  "to_double x =
     (if x = 0 then Fin 0
      else
        (let a = \<bar>x\<bar>;
             e = max (ilog2 a) (- 1022);
             ulp = pow2 (e - 52);
             n = round_half_even (a / ulp)
         in if 1024 \<le> e \<or> (e = 1023 \<and> 2 ^ 53 \<le> n) then (if x < 0 then NInf else PInf)
            else Fin (if x < 0 then - (of_int n * ulp) else of_int n * ulp)))"

fun js_sgn :: "jsnum \<Rightarrow> int" where
  "js_sgn (Fin a) = (if a < 0 then -1 else if a = 0 then 0 else 1)"
| "js_sgn PInf = 1"
| "js_sgn NInf = -1"
| "js_sgn NaN = 0"

fun js_add :: "jsnum \<Rightarrow> jsnum \<Rightarrow> jsnum" where
  "js_add NaN y = NaN"
| "js_add x NaN = NaN"
| "js_add (Fin a) (Fin b) = to_double (a + b)"
| "js_add PInf NInf = NaN"
| "js_add NInf PInf = NaN"
| "js_add PInf y = PInf"
| "js_add NInf y = NInf"
| "js_add (Fin a) y = y"

fun js_mul :: "jsnum \<Rightarrow> jsnum \<Rightarrow> jsnum" where
  "js_mul NaN y = NaN"
| "js_mul x NaN = NaN"
| "js_mul (Fin a) (Fin b) = to_double (a * b)"
| "js_mul x y =
     (let s = js_sgn x * js_sgn y
      in if s = 0 then NaN else if 0 < s then PInf else NInf)"

text \<open>
  Division. A zero divisor is taken as positive zero; the source divides by powers of
  ten and by 100 only.
\<close>

fun js_div :: "jsnum \<Rightarrow> jsnum \<Rightarrow> jsnum" where
  "js_div NaN y = NaN"
| "js_div x NaN = NaN"
| "js_div (Fin a) (Fin b) =
     (if b = 0 then (if a = 0 then NaN else if 0 < a then PInf else NInf)
      else to_double (a / b))"
| "js_div (Fin a) y = Fin 0"
| "js_div x (Fin b) =
     (if (js_sgn x < 0) = (b < 0) then PInf else NInf)"
| "js_div x y = NaN"

fun js_neg :: "jsnum \<Rightarrow> jsnum" where
  "js_neg (Fin a) = Fin (- a)"
| "js_neg PInf = NInf"
| "js_neg NInf = PInf"
| "js_neg NaN = NaN"

text \<open>\<open>Math.abs\<close>.\<close>

fun js_abs :: "jsnum \<Rightarrow> jsnum" where
  "js_abs (Fin a) = Fin \<bar>a\<bar>"
| "js_abs PInf = PInf"
| "js_abs NInf = PInf"
| "js_abs NaN = NaN"

text \<open>The comparisons \<open>x < 0\<close>, \<open>x > 0\<close> and \<open>x === 0\<close>; each is false for NaN.\<close>

fun js_lt0 :: "jsnum \<Rightarrow> bool" where
  "js_lt0 (Fin a) = (a < 0)"
| "js_lt0 NInf = True"
| "js_lt0 x = False"

fun js_gt0 :: "jsnum \<Rightarrow> bool" where
  "js_gt0 (Fin a) = (0 < a)"
| "js_gt0 PInf = True"
| "js_gt0 x = False"

fun js_eq0 :: "jsnum \<Rightarrow> bool" where
  "js_eq0 (Fin a) = (a = 0)"
| "js_eq0 x = False"

text \<open>
  \<open>x || 0\<close> for a value that is a number or undefined: zero, NaN and undefined are
  falsy. \<open>x ?? 0\<close> replaces undefined only.
\<close>

fun js_or0 :: "jsnum option \<Rightarrow> jsnum" where
  "js_or0 None = Fin 0"
| "js_or0 (Some NaN) = Fin 0"
| "js_or0 (Some x) = x"

fun js_nullish0 :: "jsnum option \<Rightarrow> jsnum" where
  "js_nullish0 None = Fin 0"
| "js_nullish0 (Some x) = x"

text \<open>
  \<open>10 ** decimals\<close> for a natural number of decimals: the double nearest to the
  power of ten (the power itself up to 22 decimals, infinity from 309 on). Between 23
  and 308 decimals an engine may return a neighbour of the nearest double; token
  amounts have at most some tens of decimals, and the examples below use 6.
\<close>

definition js_pow10 :: "nat \<Rightarrow> jsnum" where
  "js_pow10 decimals = to_double (10 ^ decimals)"

subsection \<open>\<open>Number(string)\<close>\<close>

text \<open>
  A string is the list of the bytes of its UTF-8 encoding. The conversion of a string
  to a number drops the white space and line terminators around it, takes the empty
  string as 0, and reads an optional sign with a decimal literal (digits, fraction,
  exponent) or \<open>Infinity\<close>, or an unsigned literal with radix prefix \<open>0x\<close>,
  \<open>0o\<close>, \<open>0b\<close>; any other string is NaN. The value of a literal is rounded to the
  nearest double.

  The white space and line terminator characters of the language, in UTF-8: TAB, LF,
  VT, FF, CR, SP, U+00A0, U+1680, U+2000 to U+200A, U+2028, U+2029, U+202F, U+205F,
  U+3000 and U+FEFF.
\<close>

definition js_white_space :: "string list" where
  "js_white_space =
     [ [CHR 0x09], [CHR 0x0A], [CHR 0x0B], [CHR 0x0C], [CHR 0x0D], [CHR 0x20],
      [CHR 0xC2, CHR 0xA0],
      [CHR 0xE1, CHR 0x9A, CHR 0x80],
      [CHR 0xE2, CHR 0x80, CHR 0x80], [CHR 0xE2, CHR 0x80, CHR 0x81],
      [CHR 0xE2, CHR 0x80, CHR 0x82], [CHR 0xE2, CHR 0x80, CHR 0x83],
      [CHR 0xE2, CHR 0x80, CHR 0x84], [CHR 0xE2, CHR 0x80, CHR 0x85],
      [CHR 0xE2, CHR 0x80, CHR 0x86], [CHR 0xE2, CHR 0x80, CHR 0x87],
      [CHR 0xE2, CHR 0x80, CHR 0x88], [CHR 0xE2, CHR 0x80, CHR 0x89],
      [CHR 0xE2, CHR 0x80, CHR 0x8A],
      [CHR 0xE2, CHR 0x80, CHR 0xA8], [CHR 0xE2, CHR 0x80, CHR 0xA9],
      [CHR 0xE2, CHR 0x80, CHR 0xAF],
      [CHR 0xE2, CHR 0x81, CHR 0x9F],
      [CHR 0xE3, CHR 0x80, CHR 0x80],
      [CHR 0xEF, CHR 0xBB, CHR 0xBF] ]"

text \<open>\<open>s.startsWith(p)\<close> and \<open>s.includes(p)\<close>.\<close>

fun starts_with :: "string \<Rightarrow> string \<Rightarrow> bool" where
  "starts_with s [] = True"
| "starts_with [] (p # ps) = False"
| "starts_with (c # cs) (p # ps) = (c = p \<and> starts_with cs ps)"

fun str_includes :: "string \<Rightarrow> string \<Rightarrow> bool" where
  "str_includes [] p = (p = [])"
| "str_includes (c # cs) p = (starts_with (c # cs) p \<or> str_includes cs p)"

text \<open>
  The number of bytes of the character from \<open>seqs\<close> that \<open>s\<close> starts with, 0 when it
  starts with none; and the removal of all such characters from the front of \<open>s\<close>,
  which takes at most as many steps as \<open>s\<close> has bytes.
\<close>

definition lead_len :: "string list \<Rightarrow> string \<Rightarrow> nat" where
  "lead_len seqs s = (case find (starts_with s) seqs of None \<Rightarrow> 0 | Some w \<Rightarrow> length w)"

fun drop_leading :: "string list \<Rightarrow> nat \<Rightarrow> string \<Rightarrow> string" where
  "drop_leading seqs 0 s = s"
| "drop_leading seqs (Suc n) s =
     (if lead_len seqs s = 0 then s else drop_leading seqs n (drop (lead_len seqs s) s))"

definition js_trim :: "string \<Rightarrow> string" where
  "js_trim s =
     (let t = drop_leading js_white_space (length s) s
      in rev (drop_leading (map rev js_white_space) (length t) (rev t)))"

definition hex_digit :: "char \<Rightarrow> int option" where
  "hex_digit c =
     map_of (zip ''0123456789abcdef'' [0..15] @ zip ''ABCDEF'' [10..15]) c"

definition digit_in :: "int \<Rightarrow> char \<Rightarrow> int option" where
  "digit_in base c =
     (case hex_digit c of None \<Rightarrow> None | Some v \<Rightarrow> if v < base then Some v else None)"

fun digits_value :: "int \<Rightarrow> string \<Rightarrow> int \<Rightarrow> int option" where
  "digits_value base [] acc = Some acc"
| "digits_value base (c # cs) acc =
     (case digit_in base c of
        None \<Rightarrow> None
      | Some v \<Rightarrow> digits_value base cs (base * acc + v))"

definition is_dec_digit :: "char \<Rightarrow> bool" where
  "is_dec_digit c = (digit_in 10 c \<noteq> None)"

definition int_of_digits :: "string \<Rightarrow> int" where
  "int_of_digits ds = (case digits_value 10 ds 0 of None \<Rightarrow> 0 | Some n \<Rightarrow> n)"

definition unsigned_exponent :: "string \<Rightarrow> int option" where
  "unsigned_exponent ds =
     (if ds = [] then None else digits_value 10 ds 0)"

fun parse_exponent :: "string \<Rightarrow> int option" where
  "parse_exponent [] = Some 0"
| "parse_exponent (c # cs) =
     (if c = CHR ''e'' \<or> c = CHR ''E'' then
        (case cs of
           [] \<Rightarrow> None
         | d # ds \<Rightarrow>
             if d = CHR ''+'' then unsigned_exponent ds
             else if d = CHR ''-'' then map_option uminus (unsigned_exponent ds)
             else unsigned_exponent cs)
      else None)"

definition scale10 :: "rat \<Rightarrow> int \<Rightarrow> rat" where
  "scale10 m e = (if 0 \<le> e then m * 10 ^ nat e else m / 10 ^ nat (- e))"

definition parse_unsigned_decimal :: "string \<Rightarrow> jsnum" where
  "parse_unsigned_decimal s =
     (if s = ''Infinity'' then PInf
      else
        (let ip = takeWhile is_dec_digit s; r1 = dropWhile is_dec_digit s
         in case r1 of
              [] \<Rightarrow> if ip = [] then NaN else to_double (of_int (int_of_digits ip))
            | c # r2 \<Rightarrow>
                if c = CHR ''.'' then
                  (let fp = takeWhile is_dec_digit r2; r3 = dropWhile is_dec_digit r2
                   in if ip = [] \<and> fp = [] then NaN
                      else (case parse_exponent r3 of
                              None \<Rightarrow> NaN
                            | Some e \<Rightarrow>
                                to_double
                                  (scale10 (of_int (int_of_digits (ip @ fp)) / 10 ^ length fp) e)))
                else if ip = [] then NaN
                else (case parse_exponent r1 of
                        None \<Rightarrow> NaN
                      | Some e \<Rightarrow> to_double (scale10 (of_int (int_of_digits ip)) e))))"

definition radix_of_prefix :: "string \<Rightarrow> int option" where
  "radix_of_prefix s =
     (case s of
        z # x # ds \<Rightarrow>
          if z \<noteq> CHR ''0'' then None
          else if x = CHR ''x'' \<or> x = CHR ''X'' then Some 16
          else if x = CHR ''o'' \<or> x = CHR ''O'' then Some 8
          else if x = CHR ''b'' \<or> x = CHR ''B'' then Some 2
          else None
      | _ \<Rightarrow> None)"

definition Number_js :: "string \<Rightarrow> jsnum" where
  "Number_js s =
     (let t = js_trim s
      in if t = [] then Fin 0
         else (case radix_of_prefix t of
                 Some base \<Rightarrow>
                   (if drop 2 t = [] then NaN
                    else (case digits_value base (drop 2 t) 0 of
                            None \<Rightarrow> NaN | Some n \<Rightarrow> to_double (of_int n)))
               | None \<Rightarrow>
                   (case t of
                      [] \<Rightarrow> Fin 0
                    | c # r \<Rightarrow>
                        if c = CHR ''+'' then parse_unsigned_decimal r
                        else if c = CHR ''-'' then js_neg (parse_unsigned_decimal r)
                        else parse_unsigned_decimal t)))"

section \<open>Swap classifier (parseSwap)\<close>

record TokenBalanceChange =
  tbc_mint :: string
  raw_tokenAmount :: string
  raw_decimals :: nat
  tokenAccount :: string
  userAccount :: string

text \<open>
  \<open>tokenBalanceChanges\<close> of an account and \<open>accountData\<close> of a transaction may be
  missing (undefined); iterating over a missing field throws a TypeError.
\<close>

record Account =
  account :: string
  nativeBalanceChange :: int
  tokenBalanceChanges :: "TokenBalanceChange list option"

record Transfer =
  fromUserAccount :: string
  toUserAccount :: string

record HeliusWebhookData =
  accountData :: "Account list option"
  description :: string
  fee :: int
  feePayer :: string
  nativeTransfers :: "Transfer list"
  signature :: string
  slot :: int
  source :: string
  timestamp :: int
  tokenTransfers :: "Transfer list"
  tx_type :: string

datatype Side = buy | sell | unknown

text \<open>
  The value \<open>parseSwap\<close> returns: the empty object \<open>{}\<close> (no field is defined), or
  an object with side, tokenMint, tokenAmount and solAmount.
\<close>

datatype ParsedSwap = EmptySwap | Swap Side string jsnum jsnum


datatype js_exn = TypeError

definition SOL_MINT :: string where
  "SOL_MINT = ''So11111111111111111111111111111111111111112''"

text \<open>
  \<open>toHuman\<close>: \<open>raw.replace('-', '')\<close> removes the first minus sign, wherever it
  stands.
\<close>

definition toHuman :: "string \<Rightarrow> nat \<Rightarrow> jsnum" where
  "toHuman raw decimals =
     (let sign = (if starts_with raw ''-'' then - 1 else 1);
          abs_raw = remove1 (CHR ''-'') raw
      in js_div (js_mul (Fin sign) (Number_js abs_raw)) (js_pow10 decimals))"

text \<open>
  A JavaScript \<open>Map\<close> keeps its keys in insertion order; \<open>set\<close> on a present key
  keeps the key's place. Such a map is an association list.
\<close>

fun js_map_set :: "'k \<Rightarrow> 'v \<Rightarrow> ('k \<times> 'v) list \<Rightarrow> ('k \<times> 'v) list" where
  "js_map_set k v [] = [(k, v)]"
| "js_map_set k v (p # ps) = (if fst p = k then (k, v) # ps else p # js_map_set k v ps)"

type_synonym mint_changes = "(string \<times> jsnum) list"
type_synonym user_changes = "(string \<times> mint_changes) list"

text \<open>
  One step of either loop of step 1: create the user's map when it is missing, then
  \<open>mintMap.set(mint, (mintMap.get(mint) || 0) + delta)\<close>.
\<close>

definition add_change :: "string \<Rightarrow> string \<Rightarrow> jsnum \<Rightarrow> user_changes \<Rightarrow> user_changes" where
  "add_change user mint delta uc =
     (let mintMap = (case map_of uc user of None \<Rightarrow> [] | Some m \<Rightarrow> m)
      in js_map_set user (js_map_set mint (js_add (js_or0 (map_of mintMap mint)) delta) mintMap) uc)"

definition add_token_changes :: "TokenBalanceChange list \<Rightarrow> user_changes \<Rightarrow> user_changes" where
  "add_token_changes tbcs uc =
     foldl (\<lambda>m tbc. add_change (userAccount tbc) (tbc_mint tbc)
                      (toHuman (raw_tokenAmount tbc) (raw_decimals tbc)) m) uc tbcs"

fun token_loop :: "Account list \<Rightarrow> user_changes \<Rightarrow> js_exn + user_changes" where
  "token_loop [] uc = Inr uc"
| "token_loop (acc # accs) uc =
     (case tokenBalanceChanges acc of
        None \<Rightarrow> Inl TypeError
      | Some tbcs \<Rightarrow> token_loop accs (add_token_changes tbcs uc))"

definition native_loop :: "Account list \<Rightarrow> user_changes \<Rightarrow> user_changes" where
  "native_loop accs uc =
     foldl (\<lambda>m acc. if nativeBalanceChange acc \<noteq> 0
                     then add_change (account acc) SOL_MINT
                            (js_div (to_double (of_int (nativeBalanceChange acc))) (Fin (10 ^ 9))) m
                     else m) uc accs"

text \<open>Step 1 of \<open>parseSwap\<close>: the map from user account to mint to net change.\<close>

definition collect_changes :: "HeliusWebhookData \<Rightarrow> js_exn + user_changes" where
  "collect_changes tx =
     (case accountData tx of
        None \<Rightarrow> Inl TypeError
      | Some accs \<Rightarrow>
          (case token_loop accs [] of
             Inl e \<Rightarrow> Inl e
           | Inr uc \<Rightarrow> Inr (native_loop accs uc)))"

text \<open>
  Step 2: \<open>targetUser ?? [...userChanges.keys()][0]\<close>, with the test
  \<open>!userToCheck\<close>, which also rejects the empty string.
\<close>

definition select_user :: "string option \<Rightarrow> user_changes \<Rightarrow> string option" where
  "select_user targetUser uc =
     (let userToCheck = (case targetUser of
                           Some u \<Rightarrow> Some u
                         | None \<Rightarrow> (case uc of [] \<Rightarrow> None | p # _ \<Rightarrow> Some (fst p)))
      in case userToCheck of
           None \<Rightarrow> None
         | Some u \<Rightarrow> if u = [] then None else Some u)"

text \<open>
  Step 3, first half: the selected user's native delta and the list of that user's
  non-native deltas; \<open>None\<close> when no user is selected or the user has no entry.
\<close>

definition selected_deltas ::
  "string option \<Rightarrow> user_changes \<Rightarrow> (jsnum \<times> mint_changes) option" where
  "selected_deltas targetUser uc =
     (case select_user targetUser uc of
        None \<Rightarrow> None
      | Some u \<Rightarrow>
          (case map_of uc u of
             None \<Rightarrow> None
           | Some changes \<Rightarrow>
               Some (js_nullish0 (map_of changes SOL_MINT),
                     filter (\<lambda>(m, c). m \<noteq> SOL_MINT) changes)))"

text \<open>Steps 3 to 5 on the two deltas.\<close>

definition classify_deltas :: "jsnum \<Rightarrow> mint_changes \<Rightarrow> ParsedSwap" where
  "classify_deltas solChange tokenEntries =
     (case tokenEntries of
        [(tokenMint, tokenChange)] \<Rightarrow>
          if js_eq0 solChange \<or> js_eq0 tokenChange then EmptySwap
          else
            (let side = (if js_lt0 solChange \<and> js_gt0 tokenChange then buy
                         else if js_lt0 tokenChange \<and> js_gt0 solChange then sell
                         else unknown)
             in Swap side tokenMint (js_abs tokenChange) (js_abs solChange))
      | _ \<Rightarrow> EmptySwap)"

definition parseSwap_body :: "HeliusWebhookData \<Rightarrow> string option \<Rightarrow> js_exn + ParsedSwap" where
  "parseSwap_body tx targetUser =
     (case collect_changes tx of
        Inl e \<Rightarrow> Inl e
      | Inr uc \<Rightarrow>
          (case selected_deltas targetUser uc of
             None \<Rightarrow> Inr EmptySwap
           | Some (solChange, tokenEntries) \<Rightarrow> Inr (classify_deltas solChange tokenEntries)))"

text \<open>
  \<open>try { ... } catch (e) { ... }\<close>: what the body throws is handed to the handler.
\<close>

definition try_catch :: "('e + 'a) \<Rightarrow> ('e \<Rightarrow> 'e + 'a) \<Rightarrow> 'e + 'a" where
  "try_catch body handler = (case body of Inl e \<Rightarrow> handler e | Inr v \<Rightarrow> Inr v)"

definition parseSwap :: "HeliusWebhookData \<Rightarrow> string option \<Rightarrow> js_exn + ParsedSwap" where
  "parseSwap tx targetUser = try_catch (parseSwap_body tx targetUser) (\<lambda>e. Inr EmptySwap)"

text \<open>
  A single-account payload: account \<open>w\<close> with native delta \<open>n\<close> (minor units) and
  one token-balance change of \<open>w\<close> on mint \<open>m\<close>.
\<close>

definition single_swap_tx :: "string \<Rightarrow> int \<Rightarrow> string \<Rightarrow> string \<Rightarrow> nat \<Rightarrow> HeliusWebhookData" where
  "single_swap_tx w n m raw dec =
     \<lparr>accountData = Some [\<lparr>account = w, nativeBalanceChange = n,
        tokenBalanceChanges = Some [\<lparr>tbc_mint = m, raw_tokenAmount = raw, raw_decimals = dec,
          tokenAccount = ''ta'', userAccount = w\<rparr>]\<rparr>],
      description = ''swap'', fee = 5000, feePayer = w, nativeTransfers = [],
      signature = ''sig'', slot = 1, source = ''JUPITER'', timestamp = 1700000000,
      tokenTransfers = [\<lparr>fromUserAccount = ''pool'', toUserAccount = w\<rparr>],
      tx_type = ''SWAP''\<rparr>"




subsection \<open>The balance changes of a payload\<close>



















section \<open>Dispatcher (HeliusWebhookService.processTransaction, CopyTradingService)\<close>

text \<open>
  The trade record built from a webhook transaction. The generated id, the
  \<open>Date\<close> made from the block time and the DEX label are left out; no modelled path
  reads them. The persistence of the trade (\<open>storeKOLTrade\<close>) and the transport of
  the bus are not modelled: the dispatcher's result is the list of messages it hands
  over.
\<close>

record TradeDetails =
  td_tradeType :: Side
  td_tokenIn :: string
  td_tokenOut :: string
  td_amountIn :: jsnum
  td_amountOut :: jsnum
  td_mint :: string

record KOLTrade =
  kt_kolWallet :: string
  kt_signature :: string
  tokenIn :: string
  tokenOut :: string
  amountIn :: jsnum
  amountOut :: jsnum
  tradeType :: Side
  kt_mint :: string
  slotNumber :: int
  blockTime :: int
  kt_fee :: int

record QueuedTradeParams =
  agentId :: string
  qt_tradeType :: Side
  amount :: "rat option"
  qt_privateKey :: string
  qt_mint :: string
  priority :: string
  qt_watchConfig :: "WatchConfig option"

record NotificationEvent =
  n_userId :: string
  notificationType :: string
  n_trade :: KOLTrade
  n_subscription :: UserSubscription
  estimatedCopyAmount :: jsnum

definition swapTypes :: "string list" where
  "swapTypes = [''SWAP'', ''TOKEN_TRADE'', ''DeFi_SWAP'', ''EXCHANGE'']"

definition isSwapTransaction :: "HeliusWebhookData \<Rightarrow> bool" where
  "isSwapTransaction tx = list_ex (\<lambda>t. str_includes (tx_type tx) t) swapTypes"

text \<open>The loops of \<open>findWalletAddress\<close> over native and token transfers.\<close>

fun first_watched_party :: "string list \<Rightarrow> Transfer list \<Rightarrow> string option" where
  "first_watched_party activeKols [] = None"
| "first_watched_party activeKols (t # ts) =
     (if fromUserAccount t \<in> set activeKols then Some (fromUserAccount t)
      else if toUserAccount t \<in> set activeKols then Some (toUserAccount t)
      else first_watched_party activeKols ts)"

definition findWalletAddress :: "registry \<Rightarrow> HeliusWebhookData \<Rightarrow> string option" where
  "findWalletAddress st tx =
     (let activeKols = getWatchedKOLWallets st;
          accounts = (case accountData tx of None \<Rightarrow> [] | Some accs \<Rightarrow> accs)
      in case find (\<lambda>accountInfo. account accountInfo \<in> set activeKols) accounts of
           Some accountInfo \<Rightarrow> Some (account accountInfo)
         | None \<Rightarrow>
             (case first_watched_party activeKols (nativeTransfers tx) of
                Some a \<Rightarrow> Some a
              | None \<Rightarrow>
                  (case first_watched_party activeKols (tokenTransfers tx) of
                     Some a \<Rightarrow> Some a
                   | None \<Rightarrow>
                       if feePayer tx \<noteq> [] \<and> feePayer tx \<in> set activeKols
                       then Some (feePayer tx) else None)))"

text \<open>
  \<open>parseTradeDetailsFromWebhook\<close>: the defaults stay when there is no token transfer
  or the classifier's result has neither side buy nor side sell.
\<close>

definition default_details :: TradeDetails where
  "default_details =
     \<lparr>td_tradeType = buy, td_tokenIn = ''UNKNOWN'', td_tokenOut = ''UNKNOWN'',
      td_amountIn = Fin 0, td_amountOut = Fin 0, td_mint = ''UNKNOWN''\<rparr>"

definition parseTradeDetailsFromWebhook :: "HeliusWebhookData \<Rightarrow> TradeDetails" where
  "parseTradeDetailsFromWebhook tx =
     (if length (tokenTransfers tx) > 0 then
        (case parseSwap tx (Some (feePayer tx)) of
           Inr (Swap buy m ta sa) \<Rightarrow>
             \<lparr>td_tradeType = buy, td_tokenIn = m, td_tokenOut = SOL_MINT,
              td_amountIn = ta, td_amountOut = sa, td_mint = m\<rparr>
         | Inr (Swap sell m ta sa) \<Rightarrow>
             \<lparr>td_tradeType = sell, td_tokenIn = SOL_MINT, td_tokenOut = m,
              td_amountIn = sa, td_amountOut = ta, td_mint = m\<rparr>
         | _ \<Rightarrow> default_details)
      else default_details)"

definition parseKOLTradeFromWebhook :: "HeliusWebhookData \<Rightarrow> string \<Rightarrow> KOLTrade" where
  "parseKOLTradeFromWebhook tx wallet =
     (let d = parseTradeDetailsFromWebhook tx
      in \<lparr>kt_kolWallet = wallet, kt_signature = signature tx,
          tokenIn = td_tokenIn d, tokenOut = td_tokenOut d,
          amountIn = td_amountIn d, amountOut = td_amountOut d,
          tradeType = td_tradeType d, kt_mint = td_mint d,
          slotNumber = slot tx, blockTime = timestamp tx, kt_fee = fee tx\<rparr>)"

text \<open>The element of the batch built for one subscription.\<close>

definition queued_trade :: "KOLTrade \<Rightarrow> UserSubscription \<Rightarrow> QueuedTradeParams" where
  "queued_trade kolTrade subscription =
     \<lparr>agentId = userId subscription, qt_tradeType = tradeType kolTrade,
      amount = minAmount subscription, qt_privateKey = privateKey subscription,
      qt_mint = kt_mint kolTrade, priority = ''high'',
      qt_watchConfig = watchConfig subscription\<rparr>"

text \<open>
  \<open>processTransaction\<close>: the result is the list of \<open>kolTrade\<close> events emitted and
  the list of \<open>performBatchTrades\<close> calls made, each call with its list of trades.
\<close>

definition processTransaction ::
  "registry \<Rightarrow> HeliusWebhookData \<Rightarrow> KOLTrade list \<times> QueuedTradeParams list list" where
  "processTransaction st tx =
     (if isSwapTransaction tx then
        (case findWalletAddress st tx of
           None \<Rightarrow> ([], [])
         | Some wallet \<Rightarrow>
             (let kolTrade = parseKOLTradeFromWebhook tx wallet;
                  subscriptions = getSubscriptionsForKOL wallet st;
                  userSubscriptions =
                    map (queued_trade kolTrade)
                      (filter (\<lambda>subscription. sub_type subscription = Trade) subscriptions)
              in ([kolTrade],
                  if length subscriptions > 0 then [userSubscriptions] else [])))
      else ([], []))"

text \<open>\<open>HeliusWebhookService.processWebhookData\<close>: every transaction in turn.\<close>

definition webhook_processWebhookData ::
  "registry \<Rightarrow> HeliusWebhookData list \<Rightarrow> KOLTrade list \<times> QueuedTradeParams list list" where
  "webhook_processWebhookData st transactions =
     (let rs = map (processTransaction st) transactions
      in (concat (map fst rs), concat (map snd rs)))"

text \<open>
  In \<open>CopyTradingService.processWebhookData\<close> the variable \<open>data\<close> is the request
  body, the array of transactions. An array has no property \<open>amountIn\<close>: the lookup
  \<open>data.amountIn\<close> yields undefined.
\<close>

definition payload_amountIn :: "HeliusWebhookData list \<Rightarrow> jsnum option" where
  "payload_amountIn data = None"

text \<open>
  \<open>(data.amountIn || 0) * (subscription.copyPercentage / 100) || 0\<close>
\<close>

definition estimated_copy_amount :: "HeliusWebhookData list \<Rightarrow> UserSubscription \<Rightarrow> jsnum" where
  "estimated_copy_amount data subscription =
     js_or0 (Some (js_mul (js_or0 (payload_amountIn data))
                          (js_div (to_double (copyPercentage subscription)) (Fin 100))))"

record service_out =
  kol_events :: "KOLTrade list"
  rpc_calls :: "QueuedTradeParams list list"
  trade_detected :: "(KOLTrade \<times> UserSubscription list \<times> nat) list"
  notifications :: "NotificationEvent list"

text \<open>
  \<open>CopyTradingService.processWebhookData\<close>. The lookup \<open>getTokenInfo\<close> is an
  external call; whether it returns is the input \<open>tokenInfoReturns\<close>. When it throws,
  or when the body is empty (\<open>data[0]\<close> is undefined), the \<open>catch\<close> ends the call
  and neither the trade-detected event nor a notification is published.
\<close>

definition service_processWebhookData ::
  "bool \<Rightarrow> registry \<Rightarrow> HeliusWebhookData list \<Rightarrow> service_out" where
  "service_processWebhookData tokenInfoReturns st data =
     (case data of
        [] \<Rightarrow> \<lparr>kol_events = [], rpc_calls = [], trade_detected = [], notifications = []\<rparr>
      | tx0 # _ \<Rightarrow>
          (let kolWallet = feePayer tx0;
               kolTrade = parseKOLTradeFromWebhook tx0 kolWallet;
               subscriptions = getSubscriptionsForKOL kolWallet st;
               (events, calls) = webhook_processWebhookData st data
           in if \<not> tokenInfoReturns then
                \<lparr>kol_events = events, rpc_calls = calls, trade_detected = [], notifications = []\<rparr>
              else
                \<lparr>kol_events = events, rpc_calls = calls,
                 trade_detected = [(kolTrade, subscriptions, length subscriptions)],
                 notifications =
                   map (\<lambda>subscription.
                          \<lparr>n_userId = userId subscription, notificationType = ''trade_detected'',
                           n_trade = kolTrade, n_subscription = subscription,
                           estimatedCopyAmount = estimated_copy_amount data subscription\<rparr>)
                       subscriptions\<rparr>))"

text \<open>
  A buy of token \<open>T1\<close> by the watched wallet \<open>K1\<close>: 0.05 native units paid, 1000
  tokens received; and a quota store in which user \<open>U1\<close> has already bought \<open>T1\<close>
  once.
\<close>

definition kol_buy_tx :: HeliusWebhookData where
  "kol_buy_tx = single_swap_tx ''K1'' (- 50000000) ''T1'' ''1000000000'' 6"

definition store_at_one :: quota_store where
  "store_at_one = empty_quota\<lparr>counts := (counts empty_quota)((''U1'', ''T1'') \<mapsto> 1)\<rparr>"

section \<open>Properties of the quota gate\<close>

lemma current_count_incr:
  "current_count (redis_incr k st) k = current_count st k + 1"
  by (simp add: redis_incr_def current_count_def)

lemma decr_incr_restores:
  "counts st k = Some c \<Longrightarrow> redis_decr k (redis_incr k st) = st"
  by (simp add: redis_decr_def redis_incr_def current_count_def fun_upd_idem)

text \<open>
  Claim C5, as the code has it. Let the counter for (userId, tokenMint) equal maxCount.
  \<^item> When the store answers the INCR/EXPIRE transaction and the DECR, the call returns
    success = false, wasAtLimit = true, newCount = maxCount, and the store after the
    call is the store before it: the increment is undone by the decrement.
  \<^item> When the INCR/EXPIRE transaction succeeds and the DECR throws, or when the INCR is
    applied and the EXPIRE entry carries an error, the \<open>catch\<close> returns
    success = false, newCount = 0, wasAtLimit = false, and the counter stays at
    maxCount + 1.
  \<^item> When the connection fails, or the transaction returns null or an error for the
    INCR, the \<open>catch\<close> returns the same value and the store is unchanged.
\<close>

theorem at_limit_rolls_back:
  assumes "counts st (uid, mint) = Some maxCount"
  shows "(\<not> connect_fails f \<and> exec_result f = ExecOk \<and> \<not> decr_fails f \<longrightarrow>
            incrementAndValidatePurchase f now uid mint maxCount sid st =
              (\<lparr>success = False, newCount = maxCount, wasAtLimit = True\<rparr>, st)
            \<and> counts (snd (incrementAndValidatePurchase f now uid mint maxCount sid st))
                 (uid, mint) = Some maxCount)
       \<and> (\<not> connect_fails f
            \<and> (exec_result f = ExecOk \<and> decr_fails f \<or> exec_result f = ExpireErr) \<longrightarrow>
            fst (incrementAndValidatePurchase f now uid mint maxCount sid st) =
              \<lparr>success = False, newCount = 0, wasAtLimit = False\<rparr>
            \<and> counts (snd (incrementAndValidatePurchase f now uid mint maxCount sid st))
                 (uid, mint) = Some (maxCount + 1))
       \<and> (connect_fails f \<or> exec_result f = ExecNull \<or> exec_result f = IncrErr \<longrightarrow>
            incrementAndValidatePurchase f now uid mint maxCount sid st =
              (\<lparr>success = False, newCount = 0, wasAtLimit = False\<rparr>, st))"
proof -
  have nc: "current_count (redis_incr (uid, mint) st) (uid, mint) = maxCount + 1"
    using assms by (simp add: current_count_incr) (simp add: current_count_def)
  have undo: "redis_decr (uid, mint) (redis_incr (uid, mint) st) = st"
    using assms by (rule decr_incr_restores)
  have up: "counts (redis_incr (uid, mint) st) (uid, mint) = Some (maxCount + 1)"
    using assms by (simp add: redis_incr_def current_count_def)
  have a: "\<not> connect_fails f \<and> exec_result f = ExecOk \<and> \<not> decr_fails f \<longrightarrow>
            incrementAndValidatePurchase f now uid mint maxCount sid st =
              (\<lparr>success = False, newCount = maxCount, wasAtLimit = True\<rparr>, st)
            \<and> counts (snd (incrementAndValidatePurchase f now uid mint maxCount sid st))
                 (uid, mint) = Some maxCount"
    using assms nc undo by (simp add: incrementAndValidatePurchase_def Let_def)
  have b: "\<not> connect_fails f
            \<and> (exec_result f = ExecOk \<and> decr_fails f \<or> exec_result f = ExpireErr) \<longrightarrow>
            fst (incrementAndValidatePurchase f now uid mint maxCount sid st) =
              \<lparr>success = False, newCount = 0, wasAtLimit = False\<rparr>
            \<and> counts (snd (incrementAndValidatePurchase f now uid mint maxCount sid st))
                 (uid, mint) = Some (maxCount + 1)"
    using nc up by (auto simp add: incrementAndValidatePurchase_def Let_def caught_result_def)
  have c: "connect_fails f \<or> exec_result f = ExecNull \<or> exec_result f = IncrErr \<longrightarrow>
            incrementAndValidatePurchase f now uid mint maxCount sid st =
              (\<lparr>success = False, newCount = 0, wasAtLimit = False\<rparr>, st)"
    by (auto simp add: incrementAndValidatePurchase_def caught_result_def)
  show ?thesis using a b c by blast
qed

theorem at_limit_rolls_back_witness:
  "counts store_at_two (''U1'', ''T1'') = Some 2
   \<and> incrementAndValidatePurchase no_faults 7 ''U1'' ''T1'' 2 ''sub-1'' store_at_two =
       (\<lparr>success = False, newCount = 2, wasAtLimit = True\<rparr>, store_at_two)
   \<and> fst (incrementAndValidatePurchase decrement_fails 7 ''U1'' ''T1'' 2 ''sub-1'' store_at_two)
       = \<lparr>success = False, newCount = 0, wasAtLimit = False\<rparr>"
proof -
  have h1: "counts store_at_two (''U1'', ''T1'') = Some 2"
    by (simp add: store_at_two_def)
  have h2: "\<not> connect_fails no_faults \<and> exec_result no_faults = ExecOk
            \<and> \<not> decr_fails no_faults"
    by (simp add: no_faults_def)
  have h3: "\<not> connect_fails decrement_fails
            \<and> (exec_result decrement_fails = ExecOk \<and> decr_fails decrement_fails
                \<or> exec_result decrement_fails = ExpireErr)"
    by (simp add: decrement_fails_def no_faults_def)
  show ?thesis
    using at_limit_rolls_back [OF h1, of no_faults 7 "''sub-1''"]
      at_limit_rolls_back [OF h1, of decrement_fails 7 "''sub-1''"] h1 h2 h3
    by blast
qed

text \<open>
  The claim C5 as stated fails. With the counter at the limit 2 and a DECR that throws,
  the call returns success = false, newCount = 0, wasAtLimit = false, not
  wasAtLimit = true and newCount = 2, and the stored counter is 3 after the call: above
  the limit, with nothing left to bring it back.
\<close>

theorem decrement_failure_exceeds_limit:
  "counts store_at_two (''U1'', ''T1'') = Some 2
   \<and> fst (incrementAndValidatePurchase decrement_fails 7 ''U1'' ''T1'' 2 ''sub-1'' store_at_two)
       = \<lparr>success = False, newCount = 0, wasAtLimit = False\<rparr>
   \<and> counts (snd (incrementAndValidatePurchase decrement_fails 7 ''U1'' ''T1'' 2 ''sub-1''
        store_at_two)) (''U1'', ''T1'') = Some 3"
  by (simp add: incrementAndValidatePurchase_def decrement_fails_def no_faults_def
      store_at_two_def empty_quota_def redis_incr_def current_count_def caught_result_def
      Let_def)

text \<open>
  Claim C9. When the INCR/EXPIRE transaction succeeds with newCount \<le> maxCount and the
  write of the purchase record then fails, the call returns success = false,
  newCount = 0, wasAtLimit = false, while the stored counter stays incremented; for a
  counter that was not negative the stored value is at least 1, so the reported 0 is
  not the stored value.
\<close>

theorem record_write_failure_keeps_increment:
  assumes "\<not> connect_fails f" and "exec_result f = ExecOk" and "set_fails f"
    and "current_count st (uid, mint) + 1 \<le> maxCount"
  shows "fst (incrementAndValidatePurchase f now uid mint maxCount sid st) =
           \<lparr>success = False, newCount = 0, wasAtLimit = False\<rparr>
         \<and> counts (snd (incrementAndValidatePurchase f now uid mint maxCount sid st)) (uid, mint)
             = Some (current_count st (uid, mint) + 1)
         \<and> purchase_records (snd (incrementAndValidatePurchase f now uid mint maxCount sid st))
             = purchase_records st
         \<and> (0 \<le> current_count st (uid, mint) \<longrightarrow>
              current_count (snd (incrementAndValidatePurchase f now uid mint maxCount sid st))
                (uid, mint)
              \<noteq> newCount (fst (incrementAndValidatePurchase f now uid mint maxCount sid st)))"
proof -
  have nc: "current_count (redis_incr (uid, mint) st) (uid, mint)
              = current_count st (uid, mint) + 1"
    by (rule current_count_incr)
  have res: "incrementAndValidatePurchase f now uid mint maxCount sid st =
               (caught_result, redis_incr (uid, mint) st)"
    using assms nc by (simp add: incrementAndValidatePurchase_def Let_def)
  show ?thesis
    unfolding res
    by (simp add: caught_result_def nc) (simp add: redis_incr_def)
qed

theorem record_write_failure_keeps_increment_witness:
  "fst (incrementAndValidatePurchase record_write_fails 7 ''U1'' ''T1'' 3 ''sub-1'' empty_quota)
     = \<lparr>success = False, newCount = 0, wasAtLimit = False\<rparr>
   \<and> counts (snd (incrementAndValidatePurchase record_write_fails 7 ''U1'' ''T1'' 3 ''sub-1''
        empty_quota)) (''U1'', ''T1'') = Some 1"
proof -
  have h: "\<not> connect_fails record_write_fails" "exec_result record_write_fails = ExecOk"
    "set_fails record_write_fails"
    "current_count empty_quota (''U1'', ''T1'') + 1 \<le> 3"
    by (simp_all add: record_write_fails_def no_faults_def current_count_def empty_quota_def)
  have c0: "current_count empty_quota (''U1'', ''T1'') = 0"
    by (simp add: current_count_def empty_quota_def)
  show ?thesis
    using record_write_failure_keeps_increment [OF h, of 7 "''sub-1''"] c0 by simp
qed

section \<open>Properties of the registry\<close>

lemma user_subs_addSubscription:
  "user_subs (snd (addSubscription newId t1 t2 s st)) =
     (user_subs st)(userId s :=
        filter (\<lambda>sub. kolWallet sub \<noteq> kolWallet s) (user_subs st (userId s))
        @ [s\<lparr>sub_id := newId, createdAt := t1, updatedAt := t2\<rparr>])"
  by (simp add: addSubscription_def Let_def addKOLWalletSubscriber_def getUserSubscriptions_def)

lemma fst_addSubscription:
  "fst (addSubscription newId t1 t2 s st) =
     user_subs (snd (addSubscription newId t1 t2 s st)) (userId s)"
  by (simp add: addSubscription_def Let_def addKOLWalletSubscriber_def getUserSubscriptions_def)

lemma filter_eq_after_neq:
  "filter (\<lambda>x. kolWallet x = k) (filter (\<lambda>sub. kolWallet sub \<noteq> k) xs) = []"
  by (induction xs) auto

lemma stored_entry_after_add:
  "filter (\<lambda>x. kolWallet x = kolWallet s)
     (user_subs (snd (addSubscription newId t1 t2 s st)) (userId s))
     = [s\<lparr>sub_id := newId, createdAt := t1, updatedAt := t2\<rparr>]"
  by (simp add: user_subs_addSubscription filter_eq_after_neq)

text \<open>
  Claim C7. For subscriptions \<open>s\<close> and \<open>s'\<close> with the same userId and kolWallet,
  after addSubscription(s) followed by addSubscription(s') the user's list holds exactly
  one subscription for that (userId, kolWallet) pair, and that record is \<open>s'\<close> with
  only id, createdAt and updatedAt replaced: every other field is the field of \<open>s'\<close>.
  The list returned by the second call is the stored list.
\<close>

theorem resubscribe_replaces:
  assumes "userId s' = userId s" and "kolWallet s' = kolWallet s"
  shows "filter (\<lambda>x. userId x = userId s \<and> kolWallet x = kolWallet s)
           (user_subs (snd (addSubscription i2 c2 u2 s' (snd (addSubscription i1 c1 u1 s st))))
              (userId s))
         = [s'\<lparr>sub_id := i2, createdAt := c2, updatedAt := u2\<rparr>]
       \<and> filter (\<lambda>x. kolWallet x = kolWallet s)
           (user_subs (snd (addSubscription i2 c2 u2 s' (snd (addSubscription i1 c1 u1 s st))))
              (userId s))
         = [s'\<lparr>sub_id := i2, createdAt := c2, updatedAt := u2\<rparr>]
       \<and> fst (addSubscription i2 c2 u2 s' (snd (addSubscription i1 c1 u1 s st)))
         = user_subs (snd (addSubscription i2 c2 u2 s' (snd (addSubscription i1 c1 u1 s st))))
              (userId s)"
proof -
  let ?st2 = "snd (addSubscription i2 c2 u2 s' (snd (addSubscription i1 c1 u1 s st)))"
  have one: "filter (\<lambda>x. kolWallet x = kolWallet s) (user_subs ?st2 (userId s))
               = [s'\<lparr>sub_id := i2, createdAt := c2, updatedAt := u2\<rparr>]"
    using stored_entry_after_add [of s' i2 c2 u2 "snd (addSubscription i1 c1 u1 s st)"] assms
    by simp
  have "filter (\<lambda>x. userId x = userId s \<and> kolWallet x = kolWallet s) (user_subs ?st2 (userId s))
          = filter (\<lambda>x. userId x = userId s)
              (filter (\<lambda>x. kolWallet x = kolWallet s) (user_subs ?st2 (userId s)))"
    by (simp add: conj_commute)
  also have "\<dots> = [s'\<lparr>sub_id := i2, createdAt := c2, updatedAt := u2\<rparr>]"
    unfolding one using assms by simp
  finally have both: "filter (\<lambda>x. userId x = userId s \<and> kolWallet x = kolWallet s)
      (user_subs ?st2 (userId s)) = [s'\<lparr>sub_id := i2, createdAt := c2, updatedAt := u2\<rparr>]" .
  have ret: "fst (addSubscription i2 c2 u2 s' (snd (addSubscription i1 c1 u1 s st)))
               = user_subs ?st2 (userId s)"
    using fst_addSubscription [of i2 c2 u2 s' "snd (addSubscription i1 c1 u1 s st)"] assms by simp
  show ?thesis using one both ret by simp
qed

theorem resubscribe_replaces_witness:
  "userId changed_subscription = userId sample_subscription
   \<and> kolWallet changed_subscription = kolWallet sample_subscription
   \<and> filter (\<lambda>x. userId x = ''U1'' \<and> kolWallet x = ''K1'')
       (user_subs (snd (addSubscription ''id-2'' 200 201 changed_subscription
          (snd (addSubscription ''id-1'' 100 101 sample_subscription empty_registry)))) ''U1'')
     = [changed_subscription\<lparr>sub_id := ''id-2'', createdAt := 200, updatedAt := 201\<rparr>]"
proof -
  have h: "userId changed_subscription = userId sample_subscription"
    "kolWallet changed_subscription = kolWallet sample_subscription"
    by (simp_all add: changed_subscription_def)
  have u: "userId sample_subscription = ''U1''" "kolWallet sample_subscription = ''K1''"
    by (simp_all add: sample_subscription_def)
  show ?thesis
    using resubscribe_replaces [OF h, of "''id-2''" 200 201 "''id-1''" 100 101 empty_registry] h u
    by simp
qed

text \<open>
  Claim C8, as the code has it. addSubscription assigns the fresh id and the fresh
  createdAt and updatedAt in every call, whether or not a subscription for
  (userId, kolWallet) was stored before: the one record stored for the pair afterwards
  carries the new id and both new timestamps, so a prior id and createdAt are not kept.
\<close>

theorem add_always_assigns_fresh_identity:
  "filter (\<lambda>x. kolWallet x = kolWallet s)
     (user_subs (snd (addSubscription newId t1 t2 s st)) (userId s))
     = [s\<lparr>sub_id := newId, createdAt := t1, updatedAt := t2\<rparr>]
   \<and> map sub_id (filter (\<lambda>x. kolWallet x = kolWallet s)
        (user_subs (snd (addSubscription newId t1 t2 s st)) (userId s))) = [newId]
   \<and> map createdAt (filter (\<lambda>x. kolWallet x = kolWallet s)
        (user_subs (snd (addSubscription newId t1 t2 s st)) (userId s))) = [t1]
   \<and> map updatedAt (filter (\<lambda>x. kolWallet x = kolWallet s)
        (user_subs (snd (addSubscription newId t1 t2 s st)) (userId s))) = [t2]"
  by (simp add: stored_entry_after_add)

text \<open>
  The claim C8 as stated fails: a subscription stored with id \<open>id-1\<close> and createdAt 100
  is stored, after a second addSubscription for the same pair, with id \<open>id-2\<close> and
  createdAt 200.
\<close>

theorem prior_identity_not_kept:
  "map (\<lambda>x. (sub_id x, createdAt x))
     (user_subs (snd (addSubscription ''id-1'' 100 101 sample_subscription empty_registry)) ''U1'')
     = [(''id-1'', 100)]
   \<and> map (\<lambda>x. (sub_id x, createdAt x))
     (user_subs (snd (addSubscription ''id-2'' 200 201 sample_subscription
        (snd (addSubscription ''id-1'' 100 101 sample_subscription empty_registry)))) ''U1'')
     = [(''id-2'', 200)]"
  by (simp add: user_subs_addSubscription sample_subscription_def empty_registry_def)

lemma subscribe_state:
  "snd (subscribeToKOL (ProviderReplies True) newId t1 t2 s st) =
     \<lparr>user_subs = (user_subs st)(userId s :=
          filter (\<lambda>sub. kolWallet sub \<noteq> kolWallet s) (user_subs st (userId s))
          @ [s\<lparr>sub_id := newId, createdAt := t1, updatedAt := t2\<rparr>]),
      kol_subscribers = (kol_subscribers st)(kolWallet s :=
          List.insert (userId s) (kol_subscribers st (kolWallet s))),
      kol_active = List.insert (kolWallet s) (kol_active st)\<rparr>"
  by (simp add: subscribeToKOL_def addSubscription_def addKOLWalletSubscriber_def
      addKolWalletToWebhook_def addKOLWallet_def getWatchedKOLWallets_def
      getUserSubscriptions_def Let_def List.insert_def)

lemma filter_neq_id:
  "\<forall>x \<in> set xs. kolWallet x \<noteq> k \<Longrightarrow> filter (\<lambda>sub. kolWallet sub \<noteq> k) xs = xs"
  by (induction xs) auto

text \<open>
  Claim C10. removeSubscription(userId, kolWallet) for a user who holds no subscription
  for that KOL leaves every user's subscription list unchanged, still removes userId
  from the KOL's subscriber set, and, when that set is empty afterwards, removes the KOL
  from the active set (the subscribers key is then absent). So a KOL that was active
  with no subscriber is deactivated by removing a subscription that does not exist.
\<close>

theorem remove_absent_subscription:
  assumes "\<forall>x \<in> set (user_subs st u). kolWallet x \<noteq> k"
  shows "user_subs (snd (removeSubscription u k st)) = user_subs st
       \<and> fst (removeSubscription u k st) = user_subs st u
       \<and> kol_subscribers (snd (removeSubscription u k st)) =
           (kol_subscribers st)(k := removeAll u (kol_subscribers st k))
       \<and> kol_active (snd (removeSubscription u k st)) =
           (if removeAll u (kol_subscribers st k) = [] then removeAll k (kol_active st)
            else kol_active st)"
proof -
  have f: "filter (\<lambda>sub. kolWallet sub \<noteq> k) (user_subs st u) = user_subs st u"
    using assms by (rule filter_neq_id)
  show ?thesis
    by (auto simp add: removeSubscription_def removeKOLWalletSubscriber_def removeKOLWallet_def
        getUserSubscriptions_def Let_def f fun_upd_idem)
qed

theorem remove_absent_subscription_witness:
  "map kolWallet (user_subs watched_beside_subscription ''U1'') = [''K2'']
   \<and> kol_active watched_beside_subscription = [''K1'', ''K2'']
   \<and> kol_subscribers watched_beside_subscription ''K1'' = []
   \<and> kol_active (snd (removeSubscription ''U1'' ''K1'' watched_beside_subscription)) = [''K2'']
   \<and> user_subs (snd (removeSubscription ''U1'' ''K1'' watched_beside_subscription))
       = user_subs watched_beside_subscription"
proof -
  have a: "kol_active watched_beside_subscription = [''K1'', ''K2'']"
    by (simp add: watched_beside_subscription_def subscribe_state addKolWalletToWebhook_def
        Let_def getWatchedKOLWallets_def addKOLWallet_def empty_registry_def
        sample_subscription_def)
  have s: "kol_subscribers watched_beside_subscription ''K1'' = []"
    by (simp add: watched_beside_subscription_def subscribe_state addKolWalletToWebhook_def
        Let_def getWatchedKOLWallets_def addKOLWallet_def empty_registry_def
        sample_subscription_def)
  have u: "map kolWallet (user_subs watched_beside_subscription ''U1'') = [''K2'']"
    by (simp add: watched_beside_subscription_def subscribe_state addKolWalletToWebhook_def
        Let_def getWatchedKOLWallets_def addKOLWallet_def empty_registry_def
        sample_subscription_def)
  have h: "\<forall>x \<in> set (user_subs watched_beside_subscription ''U1''). kolWallet x \<noteq> ''K1''"
  proof
    fix x assume "x \<in> set (user_subs watched_beside_subscription ''U1'')"
    then have "kolWallet x \<in> set (map kolWallet (user_subs watched_beside_subscription ''U1''))"
      by simp
    then show "kolWallet x \<noteq> ''K1''" unfolding u by simp
  qed
  show ?thesis
    using remove_absent_subscription [OF h] a s u by simp
qed

subsection \<open>The active set and the subscriber sets\<close>















section \<open>Properties of the classifier\<close>

text \<open>
  The two loops of \<open>parseSwap\<close> build a map from users to maps from mints to sums.
  This section shows that the deltas the classifier reads from that map
  (\<open>payload_deltas\<close>) are the net changes computed from the list of balance changes
  of the payload (\<open>event_deltas\<close>): the sum for a user and a mint adds that user's
  changes on that mint in payload order, the users and the mints of a user are kept in
  the order of their first change, and a target is selected exactly when it has a
  change.
\<close>

subsection \<open>Association lists as JavaScript maps\<close>















subsection \<open>The classifier's map and the balance changes\<close>










subsection \<open>Classification\<close>















subsection \<open>Malformed amounts\<close>








section \<open>Properties of the dispatcher\<close>

lemma js_or0_mul_zero: "js_or0 (Some (js_mul (Fin 0) y)) = Fin 0"
  by (cases y) (simp_all add: to_double_def)

lemma estimated_copy_amount_zero: "estimated_copy_amount data subscription = Fin 0"
  by (simp add: estimated_copy_amount_def payload_amountIn_def js_or0_mul_zero)

lemma every_estimate_is_zero:
  "map estimatedCopyAmount (notifications (service_processWebhookData b st data))
     = replicate (length (notifications (service_processWebhookData b st data))) (Fin 0)"
  by (cases data)
    (simp_all add: service_processWebhookData_def Let_def split_beta
      estimated_copy_amount_zero comp_def map_replicate_const)

text \<open>
  What \<open>processTransaction\<close> hands to the copy-trade call: one batch with an element
  for every subscription of type trade, built from the registry and the transaction
  alone.
\<close>

lemma batch_is_every_trade_subscription:
  assumes "isSwapTransaction tx" and "findWalletAddress st tx = Some w"
    and "getSubscriptionsForKOL w st \<noteq> []"
  shows "snd (processTransaction st tx) =
           [map (queued_trade (parseKOLTradeFromWebhook tx w))
              (filter (\<lambda>s. sub_type s = Trade) (getSubscriptionsForKOL w st))]"
  using assms by (simp add: processTransaction_def Let_def)

text \<open>
  Claim C1, evaluated on the code. User \<open>U1\<close> holds a trade subscription to \<open>K1\<close>
  with tokenBuyCount 1 and a watchConfig, and has bought \<open>T1\<close> once already, so the
  quota gate rejects a further purchase (success = false, wasAtLimit = true). When
  \<open>K1\<close> buys \<open>T1\<close>, \<open>processTransaction\<close> still puts the subscription of \<open>U1\<close> into
  the batch of the copy-trade call: it never consults the gate. The notification for
  \<open>U1\<close> is emitted.
\<close>

theorem quota_gate_not_consulted:
  "map (\<lambda>s. (userId s, sub_type s, tokenBuyCount s, watchConfig s \<noteq> None))
       (getSubscriptionsForKOL ''K1'' subscribed_once) = [(''U1'', Trade, Some 1, True)]
   \<and> canPurchase (canUserPurchaseToken no_faults ''U1'' ''T1'' 1 store_at_one) = False
   \<and> fst (incrementAndValidatePurchase no_faults 7 ''U1'' ''T1'' 1 ''id-1'' store_at_one)
       = \<lparr>success = False, newCount = 1, wasAtLimit = True\<rparr>
   \<and> map (map (\<lambda>q. (agentId q, qt_tradeType q, qt_mint q)))
       (snd (processTransaction subscribed_once kol_buy_tx)) = [ [(''U1'', buy, ''T1'')] ]
   \<and> map (map agentId)
       (rpc_calls (service_processWebhookData True subscribed_once [kol_buy_tx])) = [ [''U1''] ]
   \<and> map n_userId
       (notifications (service_processWebhookData True subscribed_once [kol_buy_tx])) = [''U1'']"
  by code_simp

text \<open>
  Claim C3, evaluated on the code. For the buy of \<open>K1\<close> (quote amount 0.05) and the
  subscription of \<open>U1\<close> with copyPercentage 50, the notification carries
  estimatedCopyAmount 0, where quote amount times copyPercentage / 100 is 0.025, which
  is not 0.
\<close>

theorem estimated_copy_amount_at_buy:
  "map (\<lambda>n. (n_userId n, amountOut (n_trade n), copyPercentage (n_subscription n),
             estimatedCopyAmount n))
       (notifications (service_processWebhookData True subscribed_once [kol_buy_tx]))
     = [(''U1'', to_double (5 / 100), 50, Fin 0)]
   \<and> js_mul (to_double (5 / 100)) (js_div (to_double 50) (Fin 100)) = to_double (25 / 1000)
   \<and> to_double (25 / 1000) \<noteq> Fin 0"
  by code_simp

end
